theory Spec2Isabelle
  imports Complex_Main
begin

section \<open>JavaScript numbers\<close>

text \<open>
  The program computes with JavaScript numbers. A value is modelled as a finite real, one
  of the special values \<open>Infinity\<close>, \<open>-Infinity\<close>, \<open>NaN\<close>, or \<open>undefined\<close> (what reading an
  array out of range gives). Finite arithmetic is exact: rounding, overflow and the sign of
  zero are not modelled. Every arithmetic operator first coerces \<open>undefined\<close> to \<open>NaN\<close>, so
  the defining equations below send every argument pattern they do not list to \<open>NaN\<close>.
\<close>

datatype number = Fin real | PInf | NInf | NaN | Undefined

fun nneg :: "number \<Rightarrow> number" where
  "nneg (Fin a) = Fin (- a)"
| "nneg PInf = NInf"
| "nneg NInf = PInf"
| "nneg _ = NaN"

fun nadd :: "number \<Rightarrow> number \<Rightarrow> number" where
  "nadd (Fin a) (Fin b) = Fin (a + b)"
| "nadd (Fin a) PInf = PInf"
| "nadd (Fin a) NInf = NInf"
| "nadd PInf (Fin b) = PInf"
| "nadd PInf PInf = PInf"
| "nadd NInf (Fin b) = NInf"
| "nadd NInf NInf = NInf"
| "nadd _ _ = NaN"

definition nsub :: "number \<Rightarrow> number \<Rightarrow> number" where
  "nsub a b = nadd a (nneg b)"

text \<open>The sign of a value, for the rules of multiplication and division.\<close>

datatype sign = Neg | Zero | Pos

fun sgn_of :: "real \<Rightarrow> sign" where
  "sgn_of a = (if a < 0 then Neg else if a = 0 then Zero else Pos)"

fun inf_of :: "sign \<Rightarrow> number" where
  "inf_of Neg = NInf"
| "inf_of Zero = NaN"
| "inf_of Pos = PInf"

fun nmul :: "number \<Rightarrow> number \<Rightarrow> number" where
  "nmul (Fin a) (Fin b) = Fin (a * b)"
| "nmul (Fin a) PInf = inf_of (sgn_of a)"
| "nmul (Fin a) NInf = inf_of (sgn_of (- a))"
| "nmul PInf (Fin b) = inf_of (sgn_of b)"
| "nmul NInf (Fin b) = inf_of (sgn_of (- b))"
| "nmul PInf PInf = PInf"
| "nmul PInf NInf = NInf"
| "nmul NInf PInf = NInf"
| "nmul NInf NInf = PInf"
| "nmul _ _ = NaN"

text \<open>
  Division: a finite non-zero value divided by zero is an infinity of the dividend's sign
  (a zero is \<open>+0\<close>: the inputs are reals, and a sum started at \<open>0\<close> is never \<open>-0\<close>), and
  \<open>0/0\<close> is \<open>NaN\<close>.
\<close>

fun ndiv :: "number \<Rightarrow> number \<Rightarrow> number" where
  "ndiv (Fin a) (Fin b) = (if b = 0 then inf_of (sgn_of a) else Fin (a / b))"
| "ndiv (Fin a) PInf = Fin 0"
| "ndiv (Fin a) NInf = Fin 0"
| "ndiv PInf (Fin b) = (if b < 0 then NInf else PInf)"
| "ndiv NInf (Fin b) = (if b < 0 then PInf else NInf)"
| "ndiv _ _ = NaN"

text \<open>
  The remainder operator \<open>%\<close>: the result has the sign of the dividend (the quotient is
  truncated towards zero); a zero divisor or an infinite dividend gives \<open>NaN\<close>.
\<close>

definition trunc :: "real \<Rightarrow> int" where
  "trunc x = (if 0 \<le> x then \<lfloor>x\<rfloor> else \<lceil>x\<rceil>)"

definition fmod :: "real \<Rightarrow> real \<Rightarrow> real" where
  "fmod a b = a - b * of_int (trunc (a / b))"

fun nrem :: "number \<Rightarrow> number \<Rightarrow> number" where
  "nrem (Fin a) (Fin b) = (if b = 0 then NaN else Fin (fmod a b))"
| "nrem (Fin a) PInf = Fin a"
| "nrem (Fin a) NInf = Fin a"
| "nrem _ _ = NaN"

text \<open>Comparisons are false as soon as one side is \<open>NaN\<close> (or \<open>undefined\<close>).\<close>

fun nlt :: "number \<Rightarrow> number \<Rightarrow> bool" where
  "nlt (Fin a) (Fin b) = (a < b)"
| "nlt (Fin a) PInf = True"
| "nlt NInf (Fin b) = True"
| "nlt NInf PInf = True"
| "nlt _ _ = False"

definition ngt :: "number \<Rightarrow> number \<Rightarrow> bool" where
  "ngt a b = nlt b a"

fun nle :: "number \<Rightarrow> number \<Rightarrow> bool" where
  "nle (Fin a) (Fin b) = (a \<le> b)"
| "nle (Fin a) PInf = True"
| "nle NInf (Fin b) = True"
| "nle NInf PInf = True"
| "nle PInf PInf = True"
| "nle NInf NInf = True"
| "nle _ _ = False"

definition nge :: "number \<Rightarrow> number \<Rightarrow> bool" where
  "nge a b = nle b a"

fun nabs :: "number \<Rightarrow> number" where
  "nabs (Fin a) = Fin \<bar>a\<bar>"
| "nabs PInf = PInf"
| "nabs NInf = PInf"
| "nabs _ = NaN"

fun nsqrt :: "number \<Rightarrow> number" where
  "nsqrt (Fin a) = (if a < 0 then NaN else Fin (sqrt a))"
| "nsqrt PInf = PInf"
| "nsqrt _ = NaN"

text \<open>\<open>Math.pow\<close> with a natural exponent (the program uses 2, 3 and 4).\<close>

fun npow :: "number \<Rightarrow> nat \<Rightarrow> number" where
  "npow x 0 = Fin 1"
| "npow (Fin a) n = Fin (a ^ n)"
| "npow PInf n = PInf"
| "npow NInf n = (if even n then PInf else NInf)"
| "npow _ n = NaN"

text \<open>\<open>Math.min\<close> of two arguments: \<open>NaN\<close> if either is.\<close>

fun nmin :: "number \<Rightarrow> number \<Rightarrow> number" where
  "nmin (Fin a) (Fin b) = Fin (min a b)"
| "nmin (Fin a) PInf = Fin a"
| "nmin PInf (Fin b) = Fin b"
| "nmin PInf PInf = PInf"
| "nmin NInf (Fin b) = NInf"
| "nmin (Fin a) NInf = NInf"
| "nmin NInf PInf = NInf"
| "nmin PInf NInf = NInf"
| "nmin NInf NInf = NInf"
| "nmin _ _ = NaN"

text \<open>\<open>x || d\<close> on numbers: the falsy values are \<open>0\<close>, \<open>NaN\<close> and \<open>undefined\<close>.\<close>

fun falsy :: "number \<Rightarrow> bool" where
  "falsy (Fin a) = (a = 0)"
| "falsy NaN = True"
| "falsy Undefined = True"
| "falsy _ = False"

definition nor :: "number \<Rightarrow> number \<Rightarrow> number" where
  "nor x d = (if falsy x then d else x)"

section \<open>Arrays\<close>

text \<open>\<open>xs[i]\<close>: \<open>undefined\<close> outside \<open>0 \<le> i < xs.length\<close>.\<close>

definition elem :: "real list \<Rightarrow> int \<Rightarrow> number" where
  "elem xs i = (if 0 \<le> i \<and> i < int (length xs) then Fin (xs ! nat i) else Undefined)"

text \<open>The same read of an array of computed numbers.\<close>

definition elem_num :: "number list \<Rightarrow> int \<Rightarrow> number" where
  "elem_num xs i = (if 0 \<le> i \<and> i < int (length xs) then xs ! nat i else Undefined)"

text \<open>\<open>xs.slice(start, end)\<close> for indices \<open>0 \<le> start\<close> and \<open>0 \<le> end\<close>.\<close>

definition slice :: "'a list \<Rightarrow> nat \<Rightarrow> nat \<Rightarrow> 'a list" where
  "slice xs start end' = take (end' - start) (drop start xs)"

text \<open>The sum \<open>reduce((a, b) => a + b, 0)\<close>.\<close>

definition nsum :: "number list \<Rightarrow> number" where
  "nsum xs = foldl nadd (Fin 0) xs"

text \<open>
  \<open>xs.sort(cmp)\<close>: a stable insertion sort directed by the comparator. ECMAScript reads a
  comparator result \<open>NaN\<close> as \<open>+0\<close>, so \<open>x\<close> stays in front of \<open>y\<close> unless \<open>cmp x y\<close> is
  positive. The language fixes the result (it requires a stable sort) whenever the
  comparator is consistent, which it is on finite keys; on other keys the order is left to
  the implementation, and this is one admissible order.
\<close>

fun nonpos :: "number \<Rightarrow> bool" where
  "nonpos (Fin a) = (a \<le> 0)"
| "nonpos PInf = False"
| "nonpos _ = True"

fun js_insert :: "('a \<Rightarrow> 'a \<Rightarrow> number) \<Rightarrow> 'a \<Rightarrow> 'a list \<Rightarrow> 'a list" where
  "js_insert cmp x [] = [x]"
| "js_insert cmp x (y # ys) = (if nonpos (cmp x y) then x # y # ys else y # js_insert cmp x ys)"

definition js_sort :: "('a \<Rightarrow> 'a \<Rightarrow> number) \<Rightarrow> 'a list \<Rightarrow> 'a list" where
  "js_sort cmp xs = foldr (js_insert cmp) xs []"

section \<open>Signal preprocessing and transit search (dataProcessing)\<close>

text \<open>
  A light curve holds its samples in two arrays. The curves the program is given hold
  finite measurements (\<open>real\<close>); the curves it computes hold \<open>number\<close>s, since a division
  can produce the special values.
\<close>

record ('t, 'f) LightCurveData =
  time :: "'t list"
  flux :: "'f list"

subsection \<open>detrendLightCurve\<close>

definition calculateMedian :: "real list \<Rightarrow> number" where
  "calculateMedian arr =
     (let sorted = js_sort (\<lambda>a b. nsub (Fin a) (Fin b)) arr;
          mid = length sorted div 2
      in if length sorted mod 2 = 0
         then ndiv (nadd (elem sorted (int mid - 1)) (elem sorted (int mid))) (Fin 2)
         else elem sorted (int mid))"

definition detrendLightCurve :: "(real, real) LightCurveData \<Rightarrow> (real, number) LightCurveData" where
  "detrendLightCurve data =
     (let windowSize = min 101 (length (time data) div 10);
          detrendedFlux =
            map (\<lambda>(f, i).
                   let start = nat (max 0 (int i - int (windowSize div 2)));
                       end' = min (length (flux data)) (i + windowSize div 2);
                       window = slice (flux data) start end';
                       median = calculateMedian window
                   in ndiv (Fin f) median)
                (zip (flux data) [0 ..< length (flux data)])
      in \<lparr>time = time data, flux = detrendedFlux\<rparr>)"

subsection \<open>normalizeFlux\<close>

definition normalizeFlux :: "real list \<Rightarrow> number list" where
  "normalizeFlux fl =
     (let mean = ndiv (nsum (map Fin fl)) (Fin (real (length fl)));
          std = nsqrt (ndiv (foldl (\<lambda>sum val. nadd sum (npow (nsub (Fin val) mean) 2)) (Fin 0) fl)
                            (Fin (real (length fl))))
      in map (\<lambda>f. ndiv (nsub (Fin f) mean) (nor std (Fin 1))) fl)"

subsection \<open>calculateBLS\<close>

record Evaluation =
  depth :: number
  score :: number

record BLSResult = Evaluation +
  period :: number

text \<open>The body of \<open>phases.forEach\<close>: one sample is pushed onto one of the two partitions.\<close>

definition in_window :: "number \<Rightarrow> bool" where
  "in_window phase = (nlt phase (Fin (1/10)) \<or> ngt phase (Fin (9/10)))"

fun classify :: "real list \<Rightarrow> number list \<times> number list \<Rightarrow> number \<times> nat
    \<Rightarrow> number list \<times> number list" where
  "classify fl (inTransit, outTransit) (phase, i) =
     (if in_window phase then (inTransit @ [elem fl (int i)], outTransit)
      else (inTransit, outTransit @ [elem fl (int i)]))"

definition evaluatePeriod :: "(real, real) LightCurveData \<Rightarrow> number \<Rightarrow> Evaluation" where
  "evaluatePeriod data p =
     (let phases = map (\<lambda>t. ndiv (nrem (Fin t) p) p) (time data);
          (inTransit, outTransit) =
             foldl (classify (flux data)) ([], []) (zip phases [0 ..< length phases])
      in if length inTransit = 0 \<or> length outTransit = 0 then \<lparr>depth = Fin 0, score = Fin 0\<rparr>
         else
           let inMean = ndiv (nsum inTransit) (Fin (real (length inTransit)));
               outMean = ndiv (nsum outTransit) (Fin (real (length outTransit)));
               depth' = nsub (Fin 1) (ndiv inMean outMean);
               score' = nmul (nabs depth') (nsqrt (Fin (real (length inTransit))))
           in \<lparr>depth = depth', score = score'\<rparr>)"

definition minPeriod :: number where
  "minPeriod = Fin (1/2)"

definition numPeriods :: nat where
  "numPeriods = 100"

definition maxPeriod :: "(real, real) LightCurveData \<Rightarrow> number" where
  "maxPeriod data =
     nmin (Fin 20)
       (ndiv (nsub (elem (time data) (int (length (time data)) - 1)) (elem (time data) 0)) (Fin 3))"

text \<open>The candidate period of grid index \<open>i\<close>.\<close>

definition period_at :: "(real, real) LightCurveData \<Rightarrow> nat \<Rightarrow> number" where
  "period_at data i =
     nadd minPeriod (ndiv (nmul (nsub (maxPeriod data) minPeriod) (Fin (real i))) (Fin (real numPeriods)))"

text \<open>The \<open>for\<close> loop of \<open>calculateBLS\<close>, from index \<open>i\<close> with the best triple so far.\<close>

function bls_loop :: "(real, real) LightCurveData \<Rightarrow> nat \<Rightarrow> BLSResult \<Rightarrow> BLSResult" where
  "bls_loop data i best =
     (if i < numPeriods then
        let p = period_at data i;
            ev = evaluatePeriod data p
        in bls_loop data (Suc i)
             (if ngt (score ev) (score best)
              then \<lparr>depth = depth ev, score = score ev, period = p\<rparr>
              else best)
      else best)"
  by pat_completeness auto
termination
  by (relation "measure (\<lambda>(data, i, best). numPeriods - i)") auto

declare bls_loop.simps [simp del]

definition calculateBLS :: "(real, real) LightCurveData \<Rightarrow> BLSResult" where
  "calculateBLS data = bls_loop data 0 \<lparr>depth = Fin 0, score = Fin 0, period = Fin 0\<rparr>"

subsection \<open>foldLightCurve\<close>

definition foldLightCurve :: "(real, real) LightCurveData \<Rightarrow> real \<Rightarrow> real
    \<Rightarrow> (number, number) LightCurveData" where
  "foldLightCurve data p epoch =
     (let phases = map (\<lambda>t. ndiv (nrem (nsub (Fin t) (Fin epoch)) (Fin p)) (Fin p)) (time data);
          sorted = js_sort (\<lambda>a b. nsub (fst a) (fst b))
                     (map (\<lambda>(phase, i). (phase, elem (flux data) (int i)))
                        (zip phases [0 ..< length phases]))
      in \<lparr>time = map fst sorted, flux = map snd sorted\<rparr>)"

section \<open>Classifier, explanation and features (mlModel)\<close>

subsection \<open>The detector and the machine-learning runtime\<close>

text \<open>
  The detector owns one nullable model. What the TensorFlow.js runtime does is not part of
  this repository; it enters as a parameter: the compiled network a build yields, the
  forward pass, the gradient behind the saliency, training, and saving to and loading from
  a store of type \<open>'st\<close>, either of which can fail.
\<close>

datatype error = Error string

record ('m, 'st) runtime =
  sequential :: "nat \<Rightarrow> 'm"
  model_predict :: "'m \<Rightarrow> number list \<Rightarrow> number"
  model_grad :: "'m \<Rightarrow> number list \<Rightarrow> number list"
  model_fit :: "'m \<Rightarrow> number list list \<Rightarrow> real list \<Rightarrow> nat \<Rightarrow> nat \<Rightarrow> 'm"
  model_save :: "'m \<Rightarrow> string \<Rightarrow> 'st \<Rightarrow> (error + unit) \<times> 'st"
  loadLayersModel :: "string \<Rightarrow> 'st \<Rightarrow> error + 'm"

record 'm ExoplanetDetector =
  model :: "'m option"
  modelVersion :: string

definition new_ExoplanetDetector :: "'m ExoplanetDetector" where
  "new_ExoplanetDetector = \<lparr>model = None, modelVersion = ''v1.0.0-cnn-hybrid''\<rparr>"

definition buildModel :: "('m, 'st) runtime \<Rightarrow> nat \<Rightarrow> 'm ExoplanetDetector \<Rightarrow> 'm ExoplanetDetector" where
  "buildModel tf inputShape this = this\<lparr>model := Some (sequential tf inputShape)\<rparr>"

text \<open>
  \<open>padOrTruncate\<close> is private and its \<open>length\<close> is the width of the network's input (both
  callers pass 200): a natural number.
\<close>

definition padOrTruncate :: "number list \<Rightarrow> nat \<Rightarrow> number list" where
  "padOrTruncate arr len =
     (if length arr = len then arr
      else if length arr > len then slice arr 0 len
      else arr @ replicate (len - length arr) (Fin 0))"

definition computeSaliency :: "('m, 'st) runtime \<Rightarrow> 'm ExoplanetDetector \<Rightarrow> number list \<Rightarrow> number list" where
  "computeSaliency tf this input =
     (case model this of None \<Rightarrow> [] | Some m \<Rightarrow> model_grad tf m input)"

record PredictionResult =
  confidence :: number
  isExoplanet :: bool
  saliency :: "number list"

definition predict :: "('m, 'st) runtime \<Rightarrow> 'm ExoplanetDetector \<Rightarrow> (real, real) LightCurveData
    \<Rightarrow> PredictionResult \<times> 'm ExoplanetDetector" where
  "predict tf this lightCurve =
     (let this1 = (if model this = None then buildModel tf 200 this else this);
          inputLength = 200;
          normalized = normalizeFlux (flux lightCurve);
          processed = padOrTruncate normalized inputLength;
          confidence' = model_predict tf (the (model this1)) processed;
          saliency' = computeSaliency tf this1 processed
      in (\<lparr>confidence = confidence', isExoplanet = ngt confidence' (Fin (1/2)),
           saliency = saliency'\<rparr>, this1))"

text \<open>Of \<open>trainModel\<close> the effect on the detector is kept; the history it returns is the runtime's.\<close>

definition trainModel :: "('m, 'st) runtime \<Rightarrow> 'm ExoplanetDetector \<Rightarrow> (real, real) LightCurveData list
    \<Rightarrow> real list \<Rightarrow> nat \<Rightarrow> nat \<Rightarrow> 'm ExoplanetDetector" where
  "trainModel tf this trainingData labels epochs batchSize =
     (let this1 = (if model this = None then buildModel tf 200 this else this);
          inputLength = 200;
          processedData = map (\<lambda>lc. padOrTruncate (normalizeFlux (flux lc)) inputLength) trainingData
      in this1\<lparr>model := Some (model_fit tf (the (model this1)) processedData labels epochs batchSize)\<rparr>)"

text \<open>
  \<open>saveModel\<close> and \<open>loadModel\<close> act on the detector and on the store; a rejected promise is
  the \<open>Inl\<close> result.
\<close>

definition saveModel :: "('m, 'st) runtime \<Rightarrow> 'm ExoplanetDetector \<Rightarrow> string \<Rightarrow> 'st
    \<Rightarrow> (error + unit) \<times> 'st" where
  "saveModel tf this path store =
     (case model this of
        Some m \<Rightarrow> model_save tf m path store
      | None \<Rightarrow> (Inr (), store))"

definition loadModel :: "('m, 'st) runtime \<Rightarrow> 'm ExoplanetDetector \<Rightarrow> string \<Rightarrow> 'st
    \<Rightarrow> 'm ExoplanetDetector" where
  "loadModel tf this path store =
     (case loadLayersModel tf path store of
        Inr m \<Rightarrow> this\<lparr>model := Some m\<rparr>
      | Inl e \<Rightarrow> buildModel tf 200 this)"

definition getModelVersion :: "'m ExoplanetDetector \<Rightarrow> string" where
  "getModelVersion this = modelVersion this"

subsection \<open>evaluateModel\<close>

record EvaluationMetrics =
  accuracy :: number
  precision :: number
  recall :: number
  f1Score :: number
  rocAuc :: number

text \<open>
  The loop of \<open>calculateROCAUC\<close> over the sorted pairs, on the state
  (truePositives, falsePositives, auc).
\<close>

fun auc_step :: "nat \<times> nat \<times> nat \<Rightarrow> number \<times> number \<Rightarrow> nat \<times> nat \<times> nat" where
  "auc_step (truePositives, falsePositives, auc) (label, prediction) =
     (if label = Fin 1 then (Suc truePositives, falsePositives, auc)
      else (truePositives, Suc falsePositives, auc + truePositives))"

definition calculateROCAUC :: "real list \<Rightarrow> number list \<Rightarrow> number" where
  "calculateROCAUC labels predictions =
     (let pairs = map (\<lambda>(label, i). (Fin label, elem_num predictions (int i)))
                    (zip labels [0 ..< length labels]);
          sorted = js_sort (\<lambda>a b. nsub (snd b) (snd a)) pairs;
          positives = length (filter (\<lambda>l. l = 1) labels);
          negatives = length labels - positives
      in if positives = 0 \<or> negatives = 0 then Fin (1/2)
         else ndiv (Fin (real (snd (snd (foldl auc_step (0, 0, 0) sorted)))))
                (Fin (real (positives * negatives))))"

record 'm eval_state =
  detector :: "'m ExoplanetDetector"
  truePositives :: nat
  trueNegatives :: nat
  falsePositives :: nat
  falseNegatives :: nat
  predictions :: "number list"

text \<open>One round of the \<open>for\<close> loop of \<open>evaluateModel\<close>, on sample \<open>i\<close>.\<close>

definition eval_step :: "('m, 'st) runtime \<Rightarrow> real list \<Rightarrow> 'm eval_state
    \<Rightarrow> (real, real) LightCurveData \<times> nat \<Rightarrow> 'm eval_state" where
  "eval_step tf testLabels s di =
     (let (result, this1) = predict tf (detector s) (fst di);
          s1 = s\<lparr>detector := this1, predictions := predictions s @ [confidence result]\<rparr>;
          predicted = (if isExoplanet result then 1 else 0 :: nat);
          actual = elem testLabels (int (snd di))
      in if predicted = 1 \<and> actual = Fin 1 then s1\<lparr>truePositives := Suc (truePositives s1)\<rparr>
         else if predicted = 0 \<and> actual = Fin 0 then s1\<lparr>trueNegatives := Suc (trueNegatives s1)\<rparr>
         else if predicted = 1 \<and> actual = Fin 0 then s1\<lparr>falsePositives := Suc (falsePositives s1)\<rparr>
         else if predicted = 0 \<and> actual = Fin 1 then s1\<lparr>falseNegatives := Suc (falseNegatives s1)\<rparr>
         else s1)"

definition evaluateModel :: "('m, 'st) runtime \<Rightarrow> 'm ExoplanetDetector \<Rightarrow> (real, real) LightCurveData list
    \<Rightarrow> real list \<Rightarrow> (error + EvaluationMetrics) \<times> 'm ExoplanetDetector" where
  "evaluateModel tf this testData testLabels =
     (if model this = None then (Inl (Error ''Model not initialized''), this)
      else
        let s = foldl (eval_step tf testLabels)
                  \<lparr>detector = this, truePositives = 0, trueNegatives = 0, falsePositives = 0,
                   falseNegatives = 0, predictions = []\<rparr>
                  (zip testData [0 ..< length testData]);
            tp = Fin (real (truePositives s));
            accuracy' = ndiv (Fin (real (truePositives s + trueNegatives s)))
                          (Fin (real (length testData)));
            precision' = nor (ndiv tp (Fin (real (truePositives s + falsePositives s)))) (Fin 0);
            recall' = nor (ndiv tp (Fin (real (truePositives s + falseNegatives s)))) (Fin 0);
            f1Score' = nor (ndiv (nmul (Fin 2) (nmul precision' recall')) (nadd precision' recall'))
                         (Fin 0);
            rocAuc' = calculateROCAUC testLabels (predictions s)
        in (Inr \<lparr>accuracy = accuracy', precision = precision', recall = recall',
                 f1Score = f1Score', rocAuc = rocAuc'\<rparr>, detector s))"

subsection \<open>calculateSHAPValues\<close>

text \<open>
  \<open>features\<close> is the list \<open>Object.entries\<close> gives, in its order; \<open>rnd n\<close> is the value the
  \<open>n\<close>-th call of \<open>Math.random()\<close> returns. The loop hands back the attributions and the
  number of draws it made.

  \<open>baselineValues\<close> and \<open>shapValues\<close> are ordinary objects (the caller's object literal, and
  \<open>{}\<close>), given by their own properties. \<open>obj[key]\<close> reads the own property and, where there
  is none, the property every ordinary object inherits from \<open>Object.prototype\<close> under that
  name: a function, or under \<open>__proto__\<close> the prototype itself. A key found in neither place
  reads \<open>undefined\<close>.
\<close>

definition object_prototype_keys :: "string list" where
  "object_prototype_keys =
     [''constructor'', ''hasOwnProperty'', ''isPrototypeOf'', ''propertyIsEnumerable'',
      ''toLocaleString'', ''toString'', ''valueOf'', ''__proto__'', ''__defineGetter__'',
      ''__defineSetter__'', ''__lookupGetter__'', ''__lookupSetter__'']"

datatype property = Own number | Inherited | Absent

definition lookup :: "(string \<rightharpoonup> number) \<Rightarrow> string \<Rightarrow> property" where
  "lookup obj key =
     (case obj key of
        Some v \<Rightarrow> Own v
      | None \<Rightarrow> if key \<in> set object_prototype_keys then Inherited else Absent)"

text \<open>
  \<open>baselineValues[key] || 0\<close> as the number the subtraction makes of it: an inherited
  function or object is truthy, so it is kept, and converts to \<open>NaN\<close>.
\<close>

fun baseline_of :: "property \<Rightarrow> number" where
  "baseline_of (Own v) = nor v (Fin 0)"
| "baseline_of Inherited = NaN"
| "baseline_of Absent = Fin 0"

text \<open>
  \<open>obj[key] = v\<close> stores an own property, except under \<open>__proto__\<close>: that name is an
  accessor of the prototype, whose setter ignores a number.
\<close>

definition assign :: "(string \<rightharpoonup> number) \<Rightarrow> string \<Rightarrow> number \<Rightarrow> (string \<rightharpoonup> number)" where
  "assign obj key v = (if key = ''__proto__'' then obj else obj(key \<mapsto> v))"

fun shap_loop :: "(string \<times> number) list \<Rightarrow> (string \<rightharpoonup> number) \<Rightarrow> (nat \<Rightarrow> real) \<Rightarrow> nat
    \<Rightarrow> (string \<rightharpoonup> number) \<Rightarrow> (string \<rightharpoonup> number) \<times> nat" where
  "shap_loop [] baselineValues rnd n shapValues = (shapValues, n)"
| "shap_loop ((key, val) # entries) baselineValues rnd n shapValues =
     (let baseline = baseline_of (lookup baselineValues key)
      in shap_loop entries baselineValues rnd (Suc n)
           (assign shapValues key (nmul (nmul (nsub val baseline) (Fin (rnd n))) (Fin (1/2)))))"

definition calculateSHAPValues :: "(string \<times> number) list \<Rightarrow> (string \<rightharpoonup> number) \<Rightarrow> (nat \<Rightarrow> real)
    \<Rightarrow> (string \<rightharpoonup> number)" where
  "calculateSHAPValues features baselineValues rnd =
     fst (shap_loop features baselineValues rnd 0 Map.empty)"

subsection \<open>extractFeatures\<close>

text \<open>
  The record of the eight statistics; its fields carry the prefix \<open>f_\<close>, since \<open>min\<close>,
  \<open>max\<close> and \<open>range\<close> are constants of HOL.
\<close>

record FeatureVector =
  f_mean :: number
  f_variance :: number
  f_std :: number
  f_min :: number
  f_max :: number
  f_range :: number
  f_skewness :: number
  f_kurtosis :: number

text \<open>
  \<open>extractFeatures\<close> reads the flux only. The program hands it the detrended curve, whose
  flux is an array of computed numbers.
\<close>

definition extractFeatures :: "('t, number) LightCurveData \<Rightarrow> FeatureVector" where
  "extractFeatures lightCurve =
     (let fl = flux lightCurve;
          n = Fin (real (length fl));
          mean = ndiv (nsum fl) n;
          variance = ndiv (foldl (\<lambda>sum val. nadd sum (npow (nsub val mean) 2)) (Fin 0) fl) n;
          std = nsqrt variance;
          sorted = js_sort (\<lambda>a b. nsub a b) fl;
          min' = elem_num sorted 0;
          max' = elem_num sorted (int (length sorted) - 1);
          skewness = ndiv (foldl (\<lambda>sum val. nadd sum (npow (ndiv (nsub val mean) std) 3))
                             (Fin 0) fl) n;
          kurtosis = nsub (ndiv (foldl (\<lambda>sum val. nadd sum (npow (ndiv (nsub val mean) std) 4))
                                   (Fin 0) fl) n) (Fin 3)
      in \<lparr>f_mean = mean, f_variance = variance, f_std = std, f_min = min', f_max = max',
          f_range = nsub max' min', f_skewness = skewness, f_kurtosis = kurtosis\<rparr>)"

section \<open>Definitions for the statements\<close>

text \<open>
  The shaping policy as the specification words it, truncate-head and zero-pad-tail: a
  longer input loses elements at its start, a shorter one gains zeros at its end.
\<close>

definition spec_padOrTruncate :: "number list \<Rightarrow> nat \<Rightarrow> number list" where
  "spec_padOrTruncate arr len =
     (if length arr > len then drop (length arr - len) arr
      else arr @ replicate (len - length arr) (Fin 0))"

text \<open>
  The transit search in the specification's words: the phase of a sample, the two
  partitions as the samples whose phase lies inside, respectively outside, the window, the
  mean of a partition, and the candidate triple of a grid index.
\<close>

definition phase_of :: "number \<Rightarrow> real \<Rightarrow> number" where
  "phase_of p t = ndiv (nrem (Fin t) p) p"

definition in_transit :: "(real, real) LightCurveData \<Rightarrow> number \<Rightarrow> number list" where
  "in_transit data p =
     map (\<lambda>i. elem (flux data) (int i))
       (filter (\<lambda>i. in_window (phase_of p (time data ! i))) [0 ..< length (time data)])"

definition out_transit :: "(real, real) LightCurveData \<Rightarrow> number \<Rightarrow> number list" where
  "out_transit data p =
     map (\<lambda>i. elem (flux data) (int i))
       (filter (\<lambda>i. \<not> in_window (phase_of p (time data ! i))) [0 ..< length (time data)])"

text \<open>The same partitions as lists of reals, for a curve with a flux for every time.\<close>

definition in_flux :: "(real, real) LightCurveData \<Rightarrow> number \<Rightarrow> real list" where
  "in_flux data p =
     map (\<lambda>i. flux data ! i)
       (filter (\<lambda>i. in_window (phase_of p (time data ! i))) [0 ..< length (time data)])"

definition out_flux :: "(real, real) LightCurveData \<Rightarrow> number \<Rightarrow> real list" where
  "out_flux data p =
     map (\<lambda>i. flux data ! i)
       (filter (\<lambda>i. \<not> in_window (phase_of p (time data ! i))) [0 ..< length (time data)])"

definition mean :: "real list \<Rightarrow> real" where
  "mean xs = sum_list xs / real (length xs)"

text \<open>The population variance: the squared deviations from the mean, summed, over \<open>N\<close>.\<close>

definition pop_variance :: "real list \<Rightarrow> real" where
  "pop_variance xs = (\<Sum>x\<leftarrow>xs. (x - mean xs)\<^sup>2) / real (length xs)"

text \<open>
  The evaluation of one period as the specification words it, on real numbers: the phase
  \<open>(t mod period)/period\<close> is the place of a time in its cycle, from 0 up to 1; a sample is in
  transit iff its phase is below 0.1 or above 0.9; with both partitions non-empty the depth
  is 1 minus the ratio of their means and the score the absolute depth times the square
  root of the in-transit count, and depth and score are 0 otherwise.
\<close>

definition cycle_phase :: "real \<Rightarrow> real \<Rightarrow> real" where
  "cycle_phase p t = (t - p * of_int \<lfloor>t / p\<rfloor>) / p"

definition spec_window :: "real \<Rightarrow> bool" where
  "spec_window ph = (ph < 1/10 \<or> ph > 9/10)"

definition spec_in_transit :: "(real, real) LightCurveData \<Rightarrow> real \<Rightarrow> real list" where
  "spec_in_transit data p =
     map snd (filter (\<lambda>(t, f). spec_window (cycle_phase p t)) (zip (time data) (flux data)))"

definition spec_out_transit :: "(real, real) LightCurveData \<Rightarrow> real \<Rightarrow> real list" where
  "spec_out_transit data p =
     map snd (filter (\<lambda>(t, f). \<not> spec_window (cycle_phase p t)) (zip (time data) (flux data)))"

definition spec_evaluatePeriod :: "(real, real) LightCurveData \<Rightarrow> real \<Rightarrow> Evaluation" where
  "spec_evaluatePeriod data p =
     (let inT = spec_in_transit data p; outT = spec_out_transit data p
      in if inT = [] \<or> outT = [] then \<lparr>depth = Fin 0, score = Fin 0\<rparr>
         else \<lparr>depth = Fin (1 - mean inT / mean outT),
               score = Fin (\<bar>1 - mean inT / mean outT\<bar> * sqrt (real (length inT)))\<rparr>)"

definition nmean :: "number list \<Rightarrow> number" where
  "nmean xs = ndiv (nsum xs) (Fin (real (length xs)))"

definition candidate :: "(real, real) LightCurveData \<Rightarrow> nat \<Rightarrow> BLSResult" where
  "candidate data i =
     (let p = period_at data i; ev = evaluatePeriod data p
      in \<lparr>depth = depth ev, score = score ev, period = p\<rparr>)"

definition better :: "BLSResult \<Rightarrow> BLSResult \<Rightarrow> BLSResult" where
  "better best c = (if ngt (score c) (score best) then c else best)"

definition no_result :: BLSResult where
  "no_result = \<lparr>depth = Fin 0, score = Fin 0, period = Fin 0\<rparr>"

text \<open>The real value of a finite number (0 for the others), as a sort key.\<close>

fun fin_val :: "number \<Rightarrow> real" where
  "fin_val (Fin a) = a"
| "fin_val _ = 0"

section \<open>Ordering of numbers\<close>

lemma nlt_trans: "nlt a b \<Longrightarrow> nlt b c \<Longrightarrow> nlt a c"
  by (cases a; cases b; cases c) auto

lemma nlt_nle_trans: "nlt a b \<Longrightarrow> nle b c \<Longrightarrow> nlt a c"
  by (cases a; cases b; cases c) auto

lemma nlt_irrefl: "\<not> nlt a a"
  by (cases a) auto

lemma nlt_imp_nle: "nlt a b \<Longrightarrow> nle a b"
  by (cases a; cases b) auto

lemma nle_trans: "nle a b \<Longrightarrow> nle b c \<Longrightarrow> nle a c"
  by (cases a; cases b; cases c) auto

lemma nle_refl_iff: "nle a a \<longleftrightarrow> a \<noteq> NaN \<and> a \<noteq> Undefined"
  by (cases a) auto

section \<open>The loop of the grid search\<close>

lemma bls_loop_foldl:
  "i \<le> numPeriods \<Longrightarrow> bls_loop d i best = foldl better best (map (candidate d) [i ..< numPeriods])"
proof (induction d i best rule: bls_loop.induct)
  case (1 d i best)
  show ?case
  proof (cases "i < numPeriods")
    case True
    then have up: "[i ..< numPeriods] = i # [Suc i ..< numPeriods]"
      by (simp add: upt_conv_Cons)
    have eq: "(if ngt (score (evaluatePeriod d (period_at d i))) (score best)
               then \<lparr>depth = depth (evaluatePeriod d (period_at d i)),
                     score = score (evaluatePeriod d (period_at d i)), period = period_at d i\<rparr>
               else best) = better best (candidate d i)"
      by (simp add: better_def candidate_def Let_def)
    have step: "bls_loop d i best = bls_loop d (Suc i) (better best (candidate d i))"
      using True by (subst bls_loop.simps) (simp add: eq Let_def)
    have "bls_loop d (Suc i) (better best (candidate d i)) =
          foldl better (better best (candidate d i)) (map (candidate d) [Suc i ..< numPeriods])"
      using "1.IH"[OF True refl refl] True unfolding eq by simp
    then show ?thesis
      using step up by simp
  next
    case False
    then show ?thesis
      using "1.prems" by (subst bls_loop.simps) simp
  qed
qed

lemma foldl_better_select:
  assumes "nle (score b0) (score b0)"
  shows "(foldl better b0 cs = b0 \<and> (\<forall>j < length cs. \<not> ngt (score (cs ! j)) (score b0))) \<or>
         (\<exists>k < length cs. foldl better b0 cs = cs ! k \<and> ngt (score (cs ! k)) (score b0) \<and>
            (\<forall>j < length cs. \<not> ngt (score (cs ! j)) (score (cs ! k))) \<and>
            (\<forall>j < k. \<not> nge (score (cs ! j)) (score (cs ! k))))"
proof (induction cs rule: rev_induct)
  case Nil
  then show ?case by simp
next
  case (snoc c cs)
  let ?r = "foldl better b0 cs"
  show ?case
  proof (cases "ngt (score c) (score ?r)")
    case beats: True
    have new: "foldl better b0 (cs @ [c]) = (cs @ [c]) ! length cs"
      using beats by (simp add: better_def)
    have lt: "nlt (score ?r) (score c)"
      using beats by (simp add: ngt_def)
    have prev: "\<forall>j < length cs. \<not> ngt (score (cs ! j)) (score ?r)"
      using snoc.IH by (auto simp: ngt_def nlt_irrefl)
    have above0: "ngt (score c) (score b0)"
      using snoc.IH lt by (auto simp: ngt_def dest: nlt_trans)
    have a: "\<forall>j < length (cs @ [c]). \<not> ngt (score ((cs @ [c]) ! j)) (score c)"
    proof (intro allI impI)
      fix j assume "j < length (cs @ [c])"
      then consider "j < length cs" | "j = length cs" by fastforce
      then show "\<not> ngt (score ((cs @ [c]) ! j)) (score c)"
      proof cases
        case 1
        then show ?thesis
          using prev lt by (auto simp: ngt_def nth_append dest: nlt_trans)
      next
        case 2
        then show ?thesis by (simp add: ngt_def nlt_irrefl)
      qed
    qed
    have b: "\<forall>j < length cs. \<not> nge (score ((cs @ [c]) ! j)) (score c)"
      using prev lt by (auto simp: ngt_def nge_def nth_append dest: nlt_nle_trans)
    show ?thesis
      apply (rule disjI2)
      apply (rule exI[of _ "length cs"])
      using new above0 a b by simp
  next
    case keeps: False
    then have same: "foldl better b0 (cs @ [c]) = ?r"
      by (simp add: better_def)
    from snoc.IH show ?thesis
    proof (elim disjE exE conjE)
      assume r0: "?r = b0" and none: "\<forall>j<length cs. \<not> ngt (score (cs ! j)) (score b0)"
      have "\<forall>j < length (cs @ [c]). \<not> ngt (score ((cs @ [c]) ! j)) (score b0)"
        using none keeps r0 by (auto simp: nth_append less_Suc_eq)
      then show ?thesis using same r0 by simp
    next
      fix k
      assume k: "k < length cs" and rk: "?r = cs ! k" and pos: "ngt (score (cs ! k)) (score b0)"
        and mx: "\<forall>j<length cs. \<not> ngt (score (cs ! j)) (score (cs ! k))"
        and fst: "\<forall>j<k. \<not> nge (score (cs ! j)) (score (cs ! k))"
      have "\<forall>j < length (cs @ [c]). \<not> ngt (score ((cs @ [c]) ! j)) (score ((cs @ [c]) ! k))"
        using mx keeps rk k by (auto simp: nth_append less_Suc_eq)
      moreover have "\<forall>j<k. \<not> nge (score ((cs @ [c]) ! j)) (score ((cs @ [c]) ! k))"
        using fst k by (auto simp: nth_append)
      ultimately show ?thesis
        using same rk k pos
        by (intro disjI2 exI[of _ k]) (simp add: nth_append)
    qed
  qed
qed

section \<open>Evaluating one period, and the search as a whole\<close>

lemma foldl_classify:
  "foldl (classify fl) (a, b) ps =
     (a @ map (\<lambda>(ph, i). elem fl (int i)) (filter (\<lambda>(ph, i). in_window ph) ps),
      b @ map (\<lambda>(ph, i). elem fl (int i)) (filter (\<lambda>(ph, i). \<not> in_window ph) ps))"
  by (induction ps arbitrary: a b) auto

lemma zip_map_upt:
  "zip (map f ts) [0 ..< length (map f ts)] = map (\<lambda>i. (f (ts ! i), i)) [0 ..< length ts]"
  by (rule nth_equalityI) auto

lemma partitions_of_loop:
  "foldl (classify (flux d)) ([], [])
     (zip (map (\<lambda>t. ndiv (nrem (Fin t) p) p) (time d))
          [0 ..< length (map (\<lambda>t. ndiv (nrem (Fin t) p) p) (time d))]) =
   (in_transit d p, out_transit d p)"
  unfolding foldl_classify zip_map_upt in_transit_def out_transit_def phase_of_def
  by (simp add: filter_map comp_def)

lemma evaluatePeriod_partitions:
  "evaluatePeriod d p =
     (if in_transit d p = [] \<or> out_transit d p = [] then \<lparr>depth = Fin 0, score = Fin 0\<rparr>
      else \<lparr>depth = nsub (Fin 1) (ndiv (nmean (in_transit d p)) (nmean (out_transit d p))),
            score = nmul (nabs (nsub (Fin 1) (ndiv (nmean (in_transit d p)) (nmean (out_transit d p)))))
                      (nsqrt (Fin (real (length (in_transit d p)))))\<rparr>)"
  unfolding evaluatePeriod_def Let_def partitions_of_loop
  by (simp add: nmean_def)

lemma calculateBLS_foldl:
  "calculateBLS d = foldl better no_result (map (candidate d) [0 ..< numPeriods])"
  by (simp add: calculateBLS_def no_result_def bls_loop_foldl)

lemma calculateBLS_select:
  "(calculateBLS d = no_result \<and> (\<forall>j < numPeriods. \<not> ngt (score (candidate d j)) (Fin 0))) \<or>
   (\<exists>k < numPeriods. calculateBLS d = candidate d k \<and> ngt (score (candidate d k)) (Fin 0) \<and>
      (\<forall>j < numPeriods. \<not> ngt (score (candidate d j)) (score (candidate d k))) \<and>
      (\<forall>j < k. \<not> nge (score (candidate d j)) (score (candidate d k))))"
proof -
  let ?cs = "map (candidate d) [0 ..< numPeriods]"
  have len: "length ?cs = numPeriods"
    by simp
  have nth: "?cs ! j = candidate d j" if "j < numPeriods" for j
    using that by simp
  have start: "nle (score no_result) (score no_result)" and zero: "score no_result = Fin 0"
    by (simp_all add: no_result_def)
  from foldl_better_select[OF start, of ?cs] show ?thesis
  proof (elim disjE exE conjE)
    assume "foldl better no_result ?cs = no_result"
      and "\<forall>j < length ?cs. \<not> ngt (score (?cs ! j)) (score no_result)"
    then show ?thesis
      unfolding len zero calculateBLS_foldl using nth by auto
  next
    fix k
    assume k: "k < length ?cs" and r: "foldl better no_result ?cs = ?cs ! k"
      and pos: "ngt (score (?cs ! k)) (score no_result)"
      and mx: "\<forall>j < length ?cs. \<not> ngt (score (?cs ! j)) (score (?cs ! k))"
      and first: "\<forall>j < k. \<not> nge (score (?cs ! j)) (score (?cs ! k))"
    from k have k': "k < numPeriods"
      by simp
    have "calculateBLS d = candidate d k"
      using r nth[OF k'] by (simp only: calculateBLS_foldl)
    moreover have "ngt (score (candidate d k)) (Fin 0)"
      using pos nth[OF k'] zero by simp
    moreover have "\<forall>j < numPeriods. \<not> ngt (score (candidate d j)) (score (candidate d k))"
      using mx nth nth[OF k'] len by metis
    moreover have "\<forall>j < k. \<not> nge (score (candidate d j)) (score (candidate d k))"
    proof (intro allI impI)
      fix j assume "j < k"
      then have "j < numPeriods"
        using k' by simp
      with first \<open>j < k\<close> show "\<not> nge (score (candidate d j)) (score (candidate d k))"
        using nth nth[OF k'] by metis
    qed
    ultimately show ?thesis
      using k' by blast
  qed
qed

lemma two_sample_scores:
  "score (evaluatePeriod \<lparr>time = [0, t], flux = [1, 2]\<rparr> p) = Fin 0 \<or>
   score (evaluatePeriod \<lparr>time = [0, t], flux = [1, 2]\<rparr> p) = Fin (1/2)"
  by (cases p)
     (auto simp: evaluatePeriod_partitions in_transit_def out_transit_def phase_of_def upt_rec
        elem_def nmean_def nsum_def nsub_def in_window_def ngt_def fmod_def trunc_def)

lemma single_sample_score:
  "evaluatePeriod \<lparr>time = [t], flux = fl\<rparr> p = \<lparr>depth = Fin 0, score = Fin 0\<rparr>"
  by (simp add: evaluatePeriod_partitions in_transit_def out_transit_def)

lemma no_samples_score:
  "time d = [] \<Longrightarrow> evaluatePeriod d p = \<lparr>depth = Fin 0, score = Fin 0\<rparr>"
  by (simp add: evaluatePeriod_partitions in_transit_def out_transit_def)

lemma score_candidate: "score (candidate d i) = score (evaluatePeriod d (period_at d i))"
  and depth_candidate: "depth (candidate d i) = depth (evaluatePeriod d (period_at d i))"
  and period_candidate: "period (candidate d i) = period_at d i"
  by (simp_all add: candidate_def Let_def)

lemma pick_index:
  fixes s :: "nat \<Rightarrow> number"
  assumes two: "\<forall>j < n. s j = Fin 0 \<or> s j = Fin (1/2)"
    and k: "k < n" "s k = Fin (1/2)" "\<forall>j < k. s j = Fin 0"
    and sel: "k' < n" "\<forall>j < n. \<not> ngt (s j) (s k')" "\<forall>j < k'. \<not> nge (s j) (s k')"
  shows "k' = k"
proof (rule ccontr)
  assume "k' \<noteq> k"
  then consider "k' < k" | "k < k'" by linarith
  then show False
  proof cases
    case 1
    then have "s k' = Fin 0" using k(3) by simp
    moreover have "\<not> ngt (s k) (s k')" using sel(2) k(1) by simp
    ultimately show False using k(2) by (simp add: ngt_def)
  next
    case 2
    then have "\<not> nge (s k) (s k')" using sel(3) by simp
    moreover have "s k' = Fin 0 \<or> s k' = Fin (1/2)" using two sel(1) by simp
    ultimately show False using k(2) by (auto simp: nge_def)
  qed
qed

lemma calculateBLS_none:
  "\<forall>i < numPeriods. \<not> ngt (score (candidate d i)) (Fin 0) \<Longrightarrow> calculateBLS d = no_result"
  using calculateBLS_select[of d] by blast

lemma bls_short_span_value:
  "calculateBLS \<lparr>time = [0, 3/10], flux = [1, 2]\<rparr> = \<lparr>depth = Fin (1/2), score = Fin (1/2), period = Fin (1/2)\<rparr>"
proof -
  let ?c = "\<lparr>time = [0, 3/10], flux = [1, 2]\<rparr> :: (real, real) LightCurveData"
  have c0: "candidate ?c 0 = \<lparr>depth = Fin (1/2), score = Fin (1/2), period = Fin (1/2)\<rparr>"
    by (simp add: candidate_def period_at_def maxPeriod_def minPeriod_def numPeriods_def
        evaluatePeriod_partitions in_transit_def out_transit_def phase_of_def upt_rec
        elem_def nmean_def nsum_def nsub_def in_window_def ngt_def fmod_def trunc_def Let_def)
  have two: "\<forall>j < numPeriods. score (candidate ?c j) = Fin 0 \<or> score (candidate ?c j) = Fin (1/2)"
    using two_sample_scores by (simp add: score_candidate)
  have pos: "ngt (score (candidate ?c 0)) (Fin 0)"
    by (simp add: c0 ngt_def)
  from calculateBLS_select[of ?c] obtain k where k: "k < numPeriods"
    and r: "calculateBLS ?c = candidate ?c k"
    and mx: "\<forall>j < numPeriods. \<not> ngt (score (candidate ?c j)) (score (candidate ?c k))"
    and first: "\<forall>j < k. \<not> nge (score (candidate ?c j)) (score (candidate ?c k))"
    using pos by (auto simp: numPeriods_def)
  have "k = 0"
    by (rule pick_index[OF two _ _ _ k mx first]) (simp_all add: c0 numPeriods_def)
  then show ?thesis
    using r c0 by simp
qed

lemma sorted_hd_le_last: "sorted xs \<Longrightarrow> xs \<noteq> [] \<Longrightarrow> hd xs \<le> last (xs :: real list)"
  by (cases xs) auto

lemma grid_period_pos:
  fixes m r :: real
  assumes "r < 100" "0 \<le> m" "0 \<le> r"
  shows "0 < 1/2 + (m - 1/2) * r / 100"
proof -
  have "1/2 + (m - 1/2) * r / 100 = (1/2) * (1 - r / 100) + m * (r / 100)"
    by (simp add: field_simps)
  moreover have "0 < (1/2) * (1 - r / 100)"
    using assms(1) by simp
  moreover have "0 \<le> m * (r / 100)"
    using assms(2,3) by simp
  ultimately show ?thesis
    by linarith
qed

lemma period_at_pos:
  assumes "sorted (time d)" "time d \<noteq> []" "i < numPeriods"
  shows "ngt (period_at d i) (Fin 0)"
proof -
  let ?m = "min 20 ((last (time d) - hd (time d)) / 3)"
  have e1: "elem (time d) (int (length (time d)) - 1) = Fin (last (time d))"
    using assms(2) by (simp add: elem_def last_conv_nth nat_diff_distrib' of_nat_diff)
  have e0: "elem (time d) 0 = Fin (hd (time d))"
    using assms(2) by (simp add: elem_def hd_conv_nth)
  have mp: "maxPeriod d = Fin ?m"
    by (simp add: maxPeriod_def e1 e0 nsub_def)
  have m0: "0 \<le> ?m"
    using sorted_hd_le_last[OF assms(1,2)] by simp
  have pa: "period_at d i = Fin (1/2 + (?m - 1/2) * real i / 100)"
    by (simp add: period_at_def mp minPeriod_def numPeriods_def nsub_def)
  have lt: "real i < 100"
    using assms(3) by (simp add: numPeriods_def)
  have r0: "0 \<le> real i"
    by simp
  note grid_period_pos[OF lt m0 r0]
  then show ?thesis
    by (simp add: pa ngt_def)
qed

lemma score_pos_has_samples:
  "ngt (score (evaluatePeriod d p)) (Fin 0) \<Longrightarrow> time d \<noteq> []"
  by (auto simp: no_samples_score ngt_def)

section \<open>Detrending, attribution and the detector's model\<close>

lemma calculateMedian_empty: "calculateMedian [] = NaN"
  by (simp add: calculateMedian_def js_sort_def elem_def)

lemma detrend_short_series:
  assumes "length (time d) < 20"
  shows "flux (detrendLightCurve d) = replicate (length (flux d)) NaN"
proof -
  have w: "min 101 (length (time d) div 10) div 2 = 0"
    using assms by simp
  have "map (\<lambda>(f, i). ndiv (Fin f)
            (calculateMedian (slice (flux d) (nat (max 0 (int i - int 0))) (min (length (flux d)) (i + 0)))))
          (zip (flux d) [0 ..< length (flux d)]) =
        map (\<lambda>x. NaN) (zip (flux d) [0 ..< length (flux d)])"
  proof (rule map_cong[OF refl])
    fix x assume mem: "x \<in> set (zip (flux d) [0 ..< length (flux d)])"
    obtain f i where x: "x = (f, i)"
      by (cases x)
    with mem have "i \<in> set [0 ..< length (flux d)]"
      by (auto dest: set_zip_rightD)
    then have "slice (flux d) (nat (max 0 (int i - int 0))) (min (length (flux d)) (i + 0)) = []"
      by (simp add: slice_def)
    then show "(case x of (f, i) \<Rightarrow> ndiv (Fin f)
            (calculateMedian (slice (flux d) (nat (max 0 (int i - int 0))) (min (length (flux d)) (i + 0))))) = NaN"
      by (simp add: x calculateMedian_empty)
  qed
  then show ?thesis
    by (simp add: detrendLightCurve_def Let_def w map_replicate_const)
qed

lemma nmul_half: "nmul (nmul x (Fin a)) (Fin (1/2)) = nmul x (Fin (a / 2))"
  by (cases x) auto

lemma assign_other: "key' \<noteq> key \<Longrightarrow> assign obj key v key' = obj key'"
  by (simp add: assign_def)

lemma assign_same: "key \<noteq> ''__proto__'' \<Longrightarrow> assign obj key v key = Some v"
  by (simp add: assign_def)

lemma shap_loop_other:
  "key \<notin> fst ` set es \<Longrightarrow> fst (shap_loop es base rnd n acc) key = acc key"
proof (induction es arbitrary: n acc)
  case Nil
  then show ?case by simp
next
  case (Cons e es)
  obtain k v where e: "e = (k, v)" by (cases e)
  with Cons.prems have "k \<noteq> key" "key \<notin> fst ` set es"
    by auto
  then show ?case
    using Cons.IH e by (simp add: Let_def assign_other)
qed

lemma shap_loop_entry:
  "distinct (map fst es) \<Longrightarrow> i < length es \<Longrightarrow> fst (es ! i) \<noteq> ''__proto__'' \<Longrightarrow>
   fst (shap_loop es base rnd n acc) (fst (es ! i)) =
     Some (nmul (nsub (snd (es ! i)) (baseline_of (lookup base (fst (es ! i))))) (Fin (rnd (n + i) / 2)))"
proof (induction es arbitrary: n acc i)
  case Nil
  then show ?case by simp
next
  case (Cons e es)
  obtain key val where e: "e = (key, val)" by (cases e)
  show ?case
  proof (cases i)
    case 0
    have "key \<notin> fst ` set es"
      using Cons.prems(1) e by auto
    moreover have "key \<noteq> ''__proto__''"
      using Cons.prems(3) 0 e by simp
    ultimately show ?thesis
      using 0 e by (simp add: Let_def shap_loop_other nmul_half assign_same)
  next
    case (Suc j)
    then show ?thesis
      using Cons.IH[of j "Suc n"] Cons.prems e by (simp add: Let_def)
  qed
qed

text \<open>An entry named \<open>__proto__\<close> costs a draw and stores nothing.\<close>

lemma shap_loop_proto:
  "fst (shap_loop es base rnd n acc) ''__proto__'' = acc ''__proto__''"
proof (induction es arbitrary: n acc)
  case Nil
  then show ?case by simp
next
  case (Cons e es)
  obtain k v where e: "e = (k, v)" by (cases e)
  show ?case
    using Cons.IH e by (simp add: Let_def assign_def)
qed

text \<open>
  A detector starts without a model, and building, loading, training and predicting each
  leave it with one: a detector whose model was never built or loaded is one whose
  \<open>model\<close> is \<open>None\<close>.
\<close>

lemma new_detector_unbuilt: "model new_ExoplanetDetector = None"
  by (simp add: new_ExoplanetDetector_def)

lemma buildModel_sets_model: "model (buildModel tf n this) \<noteq> None"
  by (simp add: buildModel_def)

lemma loadModel_sets_model: "model (loadModel tf this path store) \<noteq> None"
  by (simp add: loadModel_def buildModel_def split: sum.splits)

lemma trainModel_sets_model: "model (trainModel tf this trainingData labels epochs batchSize) \<noteq> None"
  by (simp add: trainModel_def Let_def)

lemma predict_sets_model: "model (snd (predict tf this lightCurve)) \<noteq> None"
  by (simp add: predict_def Let_def buildModel_def)

text \<open>With a model, evaluation yields metrics and saving goes to the runtime.\<close>

lemma evaluateModel_initialized:
  "model this \<noteq> None \<Longrightarrow> \<exists>metrics. fst (evaluateModel tf this testData testLabels) = Inr metrics"
  by (simp add: evaluateModel_def Let_def)

lemma saveModel_built:
  "model this = Some m \<Longrightarrow> saveModel tf this path store = model_save tf m path store"
  by (simp add: saveModel_def)

section \<open>Sums, sorting and extremes of finite arrays\<close>

lemma foldl_nadd_Fin: "foldl nadd (Fin a) (map Fin xs) = Fin (a + sum_list xs)"
  by (induction xs arbitrary: a) (auto simp: add.assoc)

lemma nsum_Fin: "nsum (map Fin xs) = Fin (sum_list xs)"
  by (simp add: nsum_def foldl_nadd_Fin)

lemma npow_Fin_2: "npow (Fin a) 2 = Fin (a\<^sup>2)"
  by (simp add: numeral_2_eq_2)

lemma foldl_squares:
  "foldl (\<lambda>sum val. nadd sum (npow (nsub val (Fin m)) 2)) (Fin a) (map Fin xs) =
     Fin (a + (\<Sum>x\<leftarrow>xs. (x - m)\<^sup>2))"
  by (induction xs arbitrary: a) (auto simp: nsub_def npow_Fin_2 add.assoc)

lemma js_insert_Fin: "js_insert (\<lambda>a b. nsub a b) (Fin x) (map Fin ys) = map Fin (insort x ys)"
  by (induction ys) (auto simp: nsub_def)

lemma js_sort_Fin: "js_sort (\<lambda>a b. nsub a b) (map Fin xs) = map Fin (sort xs)"
  by (induction xs) (auto simp: js_sort_def js_insert_Fin)

lemma elem_num_Fin: "elem_num (map Fin ys) i = elem ys i"
  by (auto simp: elem_num_def elem_def)

lemma nsub_Fin: "nsub (Fin a) (Fin b) = Fin (a - b)"
  by (simp add: nsub_def)

lemma js_insert_real: "js_insert (\<lambda>a b. nsub (Fin a) (Fin b)) x ys = insort x ys"
  by (induction ys) (auto simp: nsub_def)

lemma js_sort_real: "js_sort (\<lambda>a b. nsub (Fin a) (Fin b)) xs = sort xs"
  by (induction xs) (auto simp: js_sort_def js_insert_real)

lemma sorted_hd_Min: "sorted ys \<Longrightarrow> ys \<noteq> [] \<Longrightarrow> hd ys = Min (set (ys :: real list))"
  by (cases ys) (auto intro!: Min_eqI[symmetric])

lemma sorted_last_Max: "sorted ys \<Longrightarrow> ys \<noteq> [] \<Longrightarrow> last ys = Max (set (ys :: real list))"
proof (induction ys)
  case Nil
  then show ?case by simp
next
  case (Cons y ys)
  show ?case
  proof (cases ys)
    case Nil
    then show ?thesis by simp
  next
    case (Cons z zs)
    then have "last ys = Max (set ys)"
      using Cons.IH Cons.prems by simp
    moreover have "y \<le> Max (set ys)"
      using Cons.prems Cons by (auto intro: Max_ge_iff[THEN iffD2])
    ultimately show ?thesis
      using Cons by (simp add: max_def)
  qed
qed

lemma elem_first: "xs \<noteq> [] \<Longrightarrow> elem xs 0 = Fin (hd xs)"
  by (simp add: elem_def hd_conv_nth)

lemma elem_last: "xs \<noteq> [] \<Longrightarrow> elem xs (int (length xs) - 1) = Fin (last xs)"
  by (simp add: elem_def last_conv_nth nat_diff_distrib' of_nat_diff)

section \<open>One period on a curve of finite means\<close>

lemma nmean_Fin: "xs \<noteq> [] \<Longrightarrow> nmean (map Fin xs) = Fin (mean xs)"
  by (simp add: nmean_def mean_def nsum_Fin)

lemma in_transit_finite:
  "length (flux d) = length (time d) \<Longrightarrow> in_transit d p = map Fin (in_flux d p)"
  by (simp add: in_transit_def in_flux_def elem_def)

lemma out_transit_finite:
  "length (flux d) = length (time d) \<Longrightarrow> out_transit d p = map Fin (out_flux d p)"
  by (simp add: out_transit_def out_flux_def elem_def)

lemma evaluatePeriod_finite:
  assumes "length (flux d) = length (time d)"
    and "in_flux d p \<noteq> []" and "out_flux d p \<noteq> []" and "mean (out_flux d p) \<noteq> 0"
  shows "evaluatePeriod d p =
           \<lparr>depth = Fin (1 - mean (in_flux d p) / mean (out_flux d p)),
            score = Fin (\<bar>1 - mean (in_flux d p) / mean (out_flux d p)\<bar> * sqrt (real (length (in_flux d p))))\<rparr>"
  using assms
  by (simp add: evaluatePeriod_partitions in_transit_finite out_transit_finite nmean_Fin nsub_def)

section \<open>Phase folding\<close>

lemma fmod_nonneg:
  assumes "0 < p" "0 \<le> a"
  shows "0 \<le> fmod a p \<and> fmod a p < p"
proof -
  have q: "0 \<le> a / p"
    using assms by simp
  have lo: "of_int \<lfloor>a / p\<rfloor> * p \<le> a"
    by (rule pos_le_divide_eq[OF assms(1), THEN iffD1, OF of_int_floor_le])
  have hi: "a < (of_int \<lfloor>a / p\<rfloor> + 1) * p"
    by (rule pos_divide_less_eq[OF assms(1), THEN iffD1, OF real_of_int_floor_add_one_gt])
  have "fmod a p = a - of_int \<lfloor>a / p\<rfloor> * p"
    using q by (simp add: fmod_def trunc_def mult.commute)
  then show ?thesis
    using lo hi by (simp add: algebra_simps)
qed

lemma fmod_neg:
  assumes "0 < p" "a < 0"
  shows "- p < fmod a p \<and> fmod a p \<le> 0"
proof -
  have "a / p < 0"
    by (rule divide_neg_pos[OF assms(2,1)])
  then have q: "\<not> 0 \<le> a / p"
    by simp
  have lo: "a \<le> of_int \<lceil>a / p\<rceil> * p"
    by (rule pos_divide_le_eq[OF assms(1), THEN iffD1, OF le_of_int_ceiling])
  have "of_int \<lceil>a / p\<rceil> < a / p + 1"
    by linarith
  then have "of_int \<lceil>a / p\<rceil> - 1 < a / p"
    by simp
  then have hi: "(of_int \<lceil>a / p\<rceil> - 1) * p < a"
    using assms(1) by (simp add: pos_less_divide_eq)
  have "fmod a p = a - of_int \<lceil>a / p\<rceil> * p"
    using q by (simp add: fmod_def trunc_def mult.commute)
  then show ?thesis
    using lo hi by (simp add: algebra_simps)
qed

lemma phase_bounds:
  assumes "0 < p"
  shows "- 1 < fmod a p / p \<and> fmod a p / p < 1 \<and> (0 \<le> a \<longrightarrow> 0 \<le> fmod a p / p)"
proof (cases "0 \<le> a")
  case True
  with fmod_nonneg[OF assms, of a] assms show ?thesis
    by (simp add: field_simps)
next
  case False
  with fmod_neg[OF assms, of a] assms show ?thesis
    by (simp add: field_simps)
qed

lemma js_insert_finite_keys:
  assumes "\<forall>y \<in> set (x # ys). key y = Fin (fin_val (key y))"
  shows "js_insert (\<lambda>a b. nsub (key a) (key b)) x ys = insort_key (\<lambda>y. fin_val (key y)) x ys"
  using assms
proof (induction ys)
  case Nil
  then show ?case by simp
next
  case (Cons y ys)
  have kx: "key x = Fin (fin_val (key x))" and ky: "key y = Fin (fin_val (key y))"
    using Cons.prems by simp_all
  have "nonpos (nsub (key x) (key y)) \<longleftrightarrow> fin_val (key x) \<le> fin_val (key y)"
    by (subst kx, subst ky) (simp add: nsub_def)
  then show ?case
    using Cons by simp
qed

lemma js_sort_finite_keys:
  assumes "\<forall>y \<in> set xs. key y = Fin (fin_val (key y))"
  shows "js_sort (\<lambda>a b. nsub (key a) (key b)) xs = sort_key (\<lambda>y. fin_val (key y)) xs"
  using assms
proof (induction xs)
  case Nil
  then show ?case by (simp add: js_sort_def)
next
  case (Cons x xs)
  then have IH: "js_sort (\<lambda>a b. nsub (key a) (key b)) xs = sort_key (\<lambda>y. fin_val (key y)) xs"
    by simp
  have "\<forall>y \<in> set (x # sort_key (\<lambda>y. fin_val (key y)) xs). key y = Fin (fin_val (key y))"
    using Cons.prems by simp
  from js_insert_finite_keys[OF this] IH show ?case
    by (simp add: js_sort_def)
qed

lemma foldLightCurve_phases:
  assumes "0 < p"
  shows "\<exists>ps. time (foldLightCurve d p epoch) = map Fin ps \<and> sorted ps \<and>
           (\<forall>x \<in> set ps. - 1 < x \<and> x < 1) \<and>
           ((\<forall>t \<in> set (time d). epoch \<le> t) \<longrightarrow> (\<forall>x \<in> set ps. 0 \<le> x))"
proof -
  let ?ph = "\<lambda>t. fmod (t - epoch) p / p"
  let ?pairs = "map (\<lambda>(phase, i). (phase, elem (flux d) (int i)))
                  (zip (map (\<lambda>t. ndiv (nrem (nsub (Fin t) (Fin epoch)) (Fin p)) (Fin p)) (time d))
                       [0 ..< length (map (\<lambda>t. ndiv (nrem (nsub (Fin t) (Fin epoch)) (Fin p)) (Fin p)) (time d))])"
  have phases: "map (\<lambda>t. ndiv (nrem (nsub (Fin t) (Fin epoch)) (Fin p)) (Fin p)) (time d) = map (\<lambda>t. Fin (?ph t)) (time d)"
    using assms by (simp add: nsub_def)
  have fsts: "map fst ?pairs = map (\<lambda>t. Fin (?ph t)) (time d)"
    unfolding phases by (rule nth_equalityI) simp_all
  have fin: "\<forall>y \<in> set ?pairs. fst y = Fin (fin_val (fst y))"
  proof
    fix y assume "y \<in> set ?pairs"
    then have "fst y \<in> set (map fst ?pairs)"
      by (simp only: set_map) (rule imageI)
    then show "fst y = Fin (fin_val (fst y))"
      unfolding fsts by auto
  qed
  let ?sorted = "sort_key (\<lambda>y. fin_val (fst y)) ?pairs"
  let ?ps = "map (\<lambda>y. fin_val (fst y)) ?sorted"
  have t: "time (foldLightCurve d p epoch) = map fst ?sorted"
    unfolding foldLightCurve_def Let_def js_sort_finite_keys[OF fin] by simp
  have "map fst ?sorted = map Fin ?ps"
    using fin by (simp add: comp_def)
  moreover have "sorted ?ps"
    by (rule sorted_sort_key)
  moreover have "set ?ps = ?ph ` set (time d)"
  proof -
    have "set ?ps = fin_val ` set (map fst ?pairs)"
      by (simp add: image_image del: map_map)
    then show ?thesis
      unfolding fsts by (simp add: image_image)
  qed
  ultimately show ?thesis
    using t phase_bounds[OF assms] by (intro exI[of _ ?ps]) auto
qed

section \<open>The phase of the specification, and times before zero\<close>

lemma phase_of_nonneg_time:
  assumes "0 < p" "0 \<le> t"
  shows "phase_of (Fin p) t = Fin (cycle_phase p t)"
proof -
  have "0 \<le> t / p"
    using assms by simp
  then show ?thesis
    using assms(1) by (simp add: phase_of_def cycle_phase_def fmod_def trunc_def)
qed

lemma in_window_Fin: "in_window (Fin x) = spec_window x"
  by (simp add: in_window_def spec_window_def ngt_def)

lemma zip_nth_upt:
  "length ys = length xs \<Longrightarrow> zip xs ys = map (\<lambda>i. (xs ! i, ys ! i)) [0 ..< length xs]"
  by (rule nth_equalityI) auto

lemma partition_by_index:
  assumes "length ys = length xs"
  shows "map snd (filter (\<lambda>(t, f). P t) (zip xs ys)) =
         map (\<lambda>i. ys ! i) (filter (\<lambda>i. P (xs ! i)) [0 ..< length xs])"
  by (simp add: zip_nth_upt[OF assms] filter_map comp_def)

lemma in_flux_cycle:
  assumes "0 < p" "\<forall>t \<in> set (time d). 0 \<le> t" "length (flux d) = length (time d)"
  shows "in_flux d (Fin p) = spec_in_transit d p"
    and "out_flux d (Fin p) = spec_out_transit d p"
proof -
  have same: "in_window (phase_of (Fin p) (time d ! i)) = spec_window (cycle_phase p (time d ! i))"
    if "i \<in> set [0 ..< length (time d)]" for i
  proof -
    have "0 \<le> time d ! i"
      using that assms(2) by simp
    then show ?thesis
      by (simp add: phase_of_nonneg_time[OF assms(1)] in_window_Fin)
  qed
  have "filter (\<lambda>i. in_window (phase_of (Fin p) (time d ! i))) [0 ..< length (time d)] =
        filter (\<lambda>i. spec_window (cycle_phase p (time d ! i))) [0 ..< length (time d)]"
    by (rule filter_cong[OF refl]) (rule same)
  then show "in_flux d (Fin p) = spec_in_transit d p"
    by (simp add: in_flux_def spec_in_transit_def partition_by_index[OF assms(3)])
  have "filter (\<lambda>i. \<not> in_window (phase_of (Fin p) (time d ! i))) [0 ..< length (time d)] =
        filter (\<lambda>i. \<not> spec_window (cycle_phase p (time d ! i))) [0 ..< length (time d)]"
    by (rule filter_cong[OF refl]) (simp only: same)
  then show "out_flux d (Fin p) = spec_out_transit d p"
    by (simp add: out_flux_def spec_out_transit_def partition_by_index[OF assms(3)])
qed

lemma evaluatePeriod_cycle:
  assumes "0 < p" "\<forall>t \<in> set (time d). 0 \<le> t" "length (flux d) = length (time d)"
    and "spec_out_transit d p = [] \<or> mean (spec_out_transit d p) \<noteq> 0"
  shows "evaluatePeriod d (Fin p) = spec_evaluatePeriod d p"
proof (cases "spec_in_transit d p = [] \<or> spec_out_transit d p = []")
  case True
  then have "in_transit d (Fin p) = [] \<or> out_transit d (Fin p) = []"
    using in_flux_cycle[OF assms(1-3)] in_transit_finite[OF assms(3)] out_transit_finite[OF assms(3)]
    by simp
  then show ?thesis
    using True by (simp add: evaluatePeriod_partitions spec_evaluatePeriod_def)
next
  case False
  then have ne: "in_flux d (Fin p) \<noteq> []" "out_flux d (Fin p) \<noteq> []"
    and m: "mean (out_flux d (Fin p)) \<noteq> 0"
    using in_flux_cycle[OF assms(1-3)] assms(4) by simp_all
  show ?thesis
    using evaluatePeriod_finite[OF assms(3) ne m] False in_flux_cycle[OF assms(1-3)]
    by (simp add: spec_evaluatePeriod_def Let_def)
qed

lemma nonpositive_time_in_window:
  assumes "0 < q" "t \<le> 0"
  shows "in_window (phase_of (Fin q) t)"
proof -
  define x where "x = fmod t q / q"
  have "fmod t q \<le> 0"
  proof (cases "t = 0")
    case True
    then show ?thesis by (simp add: fmod_def trunc_def)
  next
    case False
    then have "t < 0"
      using assms(2) by simp
    from fmod_neg[OF assms(1) this] show ?thesis
      by simp
  qed
  then have "x \<le> 0"
    unfolding x_def using assms(1) by (rule divide_nonpos_pos)
  then have "spec_window x"
    by (simp add: spec_window_def)
  moreover have "phase_of (Fin q) t = Fin x"
    using assms(1) by (simp add: phase_of_def x_def)
  ultimately show ?thesis
    by (simp add: in_window_Fin)
qed

lemma period_at_cases: "period_at d i = NaN \<or> (\<exists>q. period_at d i = Fin q)"
proof -
  have "maxPeriod d = NaN \<or> (\<exists>m. maxPeriod d = Fin m)"
    by (auto simp: maxPeriod_def elem_def nsub_def)
  then show ?thesis
    by (auto simp: period_at_def minPeriod_def numPeriods_def nsub_def)
qed

lemma nonpositive_times_score:
  assumes "0 < q" "\<forall>t \<in> set (time d). t \<le> 0"
  shows "evaluatePeriod d (Fin q) = \<lparr>depth = Fin 0, score = Fin 0\<rparr>"
proof -
  have "filter (\<lambda>i. \<not> in_window (phase_of (Fin q) (time d ! i))) [0 ..< length (time d)] = []"
    using assms by (auto simp: filter_empty_conv nonpositive_time_in_window)
  then have "out_transit d (Fin q) = []"
    by (simp add: out_transit_def)
  then show ?thesis
    by (simp add: evaluatePeriod_partitions)
qed

lemma nonpositive_times_no_result:
  assumes "sorted (time d)" "\<forall>t \<in> set (time d). t \<le> 0"
  shows "calculateBLS d = no_result"
proof (rule calculateBLS_none, intro allI impI)
  fix i assume i: "i < numPeriods"
  show "\<not> ngt (score (candidate d i)) (Fin 0)"
  proof (cases "time d = []")
    case True
    then show ?thesis
      by (simp add: score_candidate no_samples_score ngt_def)
  next
    case False
    from period_at_pos[OF assms(1) False i] period_at_cases[of d i]
    obtain q where "period_at d i = Fin q" "0 < q"
      by (auto simp: ngt_def)
    then show ?thesis
      using nonpositive_times_score[OF _ assms(2)] by (simp add: score_candidate ngt_def)
  qed
qed

lemma short_span_periods_exceed:
  assumes "nlt (maxPeriod d) minPeriod" "i < numPeriods"
  shows "ngt (period_at d i) (maxPeriod d)"
proof -
  have "maxPeriod d = NaN \<or> (\<exists>m. maxPeriod d = Fin m)"
    by (auto simp: maxPeriod_def elem_def nsub_def)
  with assms(1) obtain m where m: "maxPeriod d = Fin m" "m < 1/2"
    by (auto simp: minPeriod_def)
  have "real i < 100"
    using assms(2) by (simp add: numPeriods_def)
  then have "0 < (1/2 - m) * (1 - real i / 100)"
    using m(2) by simp
  moreover have "1/2 + (m - 1/2) * real i / 100 - m = (1/2 - m) * (1 - real i / 100)"
    by (simp add: field_simps)
  ultimately have "m < 1/2 + (m - 1/2) * real i / 100"
    by linarith
  then show ?thesis
    by (simp add: period_at_def m minPeriod_def numPeriods_def nsub_def ngt_def)
qed

section \<open>Fixed-length shaping\<close>

text \<open>
  C4 as stated fails: on an input longer than the target, \<open>padOrTruncate\<close> keeps the head
  and cuts the tail, where the claim has the input truncated from the start.
\<close>

theorem padOrTruncate_head_counterexample:
  "padOrTruncate [Fin 1, Fin 2, Fin 3] 2 = [Fin 1, Fin 2] \<and>
   spec_padOrTruncate [Fin 1, Fin 2, Fin 3] 2 = [Fin 2, Fin 3]"
  by (simp add: padOrTruncate_def spec_padOrTruncate_def slice_def)

text \<open>
  C4, amended: for every input array and every target length \<open>L\<close>, \<open>padOrTruncate\<close> returns
  an array of length exactly \<open>L\<close>, made of the first \<open>L\<close> elements of the input (all of them
  when it has no more than \<open>L\<close>) followed by as many zeros as are missing: a longer input is
  truncated at its end, a shorter one is right-padded with zeros.
\<close>

theorem padOrTruncate_keep_head_pad_tail:
  "length (padOrTruncate arr L) = L \<and>
   padOrTruncate arr L = take L arr @ replicate (L - length arr) (Fin 0)"
  by (simp add: padOrTruncate_def slice_def)

section \<open>The period grid search\<close>

text \<open>
  C1: the claim has each candidate period classify a sample by its phase
  \<open>(t mod period)/period\<close>, in transit iff that is below 0.1 or above 0.9, take
  \<open>1 - mean(in)/mean(out)\<close> for the depth and \<open>|depth| sqrt(count(in))\<close> for the score, and
  \<open>calculateBLS\<close> return the first candidate of the greatest score. For samples at times
  from 0 on the code does so (lemmas \<open>evaluatePeriod_cycle\<close> and \<open>calculateBLS_select\<close>). For
  a sample at a negative time the remainder \<open>%\<close> is negative, the phase is at most 0, and the
  sample counts as in transit wherever it lies in its cycle (lemma
  \<open>nonpositive_time_in_window\<close>). With samples at times -3 and 0, of flux 1 and 2, the
  candidate period 0.51 has the first sample at 2/17 of its cycle, out of transit, hence
  depth 1 - 2/1 and score 1; the code computes the phase -15/17, counts both samples in
  transit and scores 0, there and at every other candidate, and returns the all-zero triple.
\<close>

theorem calculateBLS_negative_time:
  "calculateBLS \<lparr>time = [- 3, 0], flux = [1, 2]\<rparr> = \<lparr>depth = Fin 0, score = Fin 0, period = Fin 0\<rparr> \<and>
   period_at \<lparr>time = [- 3, 0], flux = [1, 2]\<rparr> 2 = Fin (51/100) \<and>
   phase_of (Fin (51/100)) (- 3) = Fin (- (15/17)) \<and>
   evaluatePeriod \<lparr>time = [- 3, 0], flux = [1, 2]\<rparr> (Fin (51/100)) = \<lparr>depth = Fin 0, score = Fin 0\<rparr> \<and>
   cycle_phase (51/100) (- 3) = 2/17 \<and>
   spec_evaluatePeriod \<lparr>time = [- 3, 0], flux = [1, 2]\<rparr> (51/100) = \<lparr>depth = Fin (- 1), score = Fin 1\<rparr>"
proof -
  let ?c = "\<lparr>time = [- 3, 0], flux = [1, 2]\<rparr> :: (real, real) LightCurveData"
  have "calculateBLS ?c = no_result"
    by (rule nonpositive_times_no_result) simp_all
  moreover have "period_at ?c 2 = Fin (51/100)"
    by (simp add: period_at_def maxPeriod_def minPeriod_def numPeriods_def elem_def nsub_def)
  moreover have ph: "phase_of (Fin (51/100)) (- 3) = Fin (- (15/17))"
    by (simp add: phase_of_def fmod_def trunc_def ceiling_def)
  moreover have "evaluatePeriod ?c (Fin (51/100)) = \<lparr>depth = Fin 0, score = Fin 0\<rparr>"
    by (rule nonpositive_times_score) simp_all
  moreover have cp: "cycle_phase (51/100) (- 3) = 2/17"
    by (simp add: cycle_phase_def)
  moreover have "cycle_phase (51/100) 0 = 0"
    by (simp add: cycle_phase_def)
  then have "spec_evaluatePeriod ?c (51/100) = \<lparr>depth = Fin (- 1), score = Fin 1\<rparr>"
    by (simp add: spec_evaluatePeriod_def spec_in_transit_def spec_out_transit_def spec_window_def
          cp mean_def)
  ultimately show ?thesis
    by (simp add: no_result_def)
qed

text \<open>
  C2: where \<open>maxPeriod < minPeriod\<close> the claim has \<open>calculateBLS\<close> report score 0 and period
  0. The code never compares the two bounds: the grid then runs downwards from 0.5, every
  candidate above the \<open>maxPeriod\<close> just computed (lemma \<open>short_span_periods_exceed\<close>), and
  is searched all the same. On the span 0.3, with \<open>maxPeriod = 0.1\<close>, the first candidate
  scores 0.5 and the result has period 0.5.
\<close>

theorem calculateBLS_short_span_searched:
  "maxPeriod \<lparr>time = [0, 3/10], flux = [1, 2]\<rparr> = Fin (1/10) \<and>
   nlt (maxPeriod \<lparr>time = [0, 3/10], flux = [1, 2]\<rparr>) minPeriod \<and>
   calculateBLS \<lparr>time = [0, 3/10], flux = [1, 2]\<rparr> =
     \<lparr>depth = Fin (1/2), score = Fin (1/2), period = Fin (1/2)\<rparr> \<and>
   ngt (period (calculateBLS \<lparr>time = [0, 3/10], flux = [1, 2]\<rparr>))
       (maxPeriod \<lparr>time = [0, 3/10], flux = [1, 2]\<rparr>)"
  by (simp add: bls_short_span_value maxPeriod_def minPeriod_def elem_def nsub_def ngt_def)

section \<open>The result of the search\<close>

text \<open>
  C7 as stated fails: where no candidate scores above 0 (here a star of constant brightness)
  the result is the all-zero triple, whose period is 0 and not positive.
\<close>

theorem calculateBLS_period_counterexample:
  "calculateBLS \<lparr>time = [0, 1, 2], flux = [1, 1, 1]\<rparr> =
     \<lparr>depth = Fin 0, score = Fin 0, period = Fin 0\<rparr> \<and>
   \<not> ngt (period (calculateBLS \<lparr>time = [0, 1, 2], flux = [1, 1, 1]\<rparr>)) (Fin 0)"
proof -
  let ?c = "\<lparr>time = [0, 1, 2], flux = [1, 1, 1]\<rparr> :: (real, real) LightCurveData"
  have "score (evaluatePeriod ?c p) = Fin 0" for p
    by (auto simp: evaluatePeriod_partitions in_transit_def out_transit_def upt_rec
          elem_def nmean_def nsum_def nsub_def)
  then have "\<forall>i < numPeriods. \<not> ngt (score (candidate ?c i)) (Fin 0)"
    by (simp add: score_candidate ngt_def)
  then have "calculateBLS ?c = no_result"
    by (rule calculateBLS_none)
  then show ?thesis
    by (simp add: no_result_def ngt_def)
qed

text \<open>
  C7, amended: every triple returned by \<open>calculateBLS\<close> has score \<open>\<ge> 0\<close>; it is the all-zero
  triple (period 0) unless its score is above 0, and then, for a light curve whose times are
  in non-decreasing order, its period is above 0.
\<close>

theorem calculateBLS_result_invariant:
  "nge (score (calculateBLS d)) (Fin 0) \<and>
   (\<not> ngt (score (calculateBLS d)) (Fin 0) \<longrightarrow> calculateBLS d = no_result) \<and>
   (sorted (time d) \<longrightarrow> ngt (score (calculateBLS d)) (Fin 0) \<longrightarrow> ngt (period (calculateBLS d)) (Fin 0))"
  using calculateBLS_select[of d]
proof (elim disjE exE conjE)
  assume "calculateBLS d = no_result"
  then show ?thesis
    by (simp add: no_result_def nge_def ngt_def)
next
  fix k
  assume k: "k < numPeriods" and r: "calculateBLS d = candidate d k"
    and pos: "ngt (score (candidate d k)) (Fin 0)"
  have "nge (score (candidate d k)) (Fin 0)"
    using pos by (simp add: ngt_def nge_def nlt_imp_nle)
  moreover have "ngt (period (candidate d k)) (Fin 0)" if "sorted (time d)"
    using period_at_pos[OF that _ k] score_pos_has_samples pos
    by (simp add: score_candidate period_candidate)
  ultimately show ?thesis
    using r pos by simp
qed

text \<open>
  On the single sample no candidate scores, and the result is the all-zero triple; on the
  two samples at times 0 and 0.3 the first candidate scores 0.5, with period 0.5.
\<close>

theorem calculateBLS_result_invariant_witness:
  "calculateBLS \<lparr>time = [0], flux = [1]\<rparr> = no_result \<and>
   sorted (time (\<lparr>time = [0, 3/10], flux = [1, 2]\<rparr> :: (real, real) LightCurveData)) \<and>
   ngt (score (calculateBLS \<lparr>time = [0, 3/10], flux = [1, 2]\<rparr>)) (Fin 0) \<and>
   ngt (period (calculateBLS \<lparr>time = [0, 3/10], flux = [1, 2]\<rparr>)) (Fin 0)"
proof -
  let ?a = "\<lparr>time = [0], flux = [1]\<rparr> :: (real, real) LightCurveData"
  let ?b = "\<lparr>time = [0, 3/10], flux = [1, 2]\<rparr> :: (real, real) LightCurveData"
  have "\<not> ngt (score (calculateBLS ?a)) (Fin 0)"
    by (simp add: calculateBLS_none score_candidate single_sample_score ngt_def no_result_def)
  with calculateBLS_result_invariant[of ?a] have a: "calculateBLS ?a = no_result"
    by blast
  have s: "sorted (time ?b)"
    by simp
  have p: "ngt (score (calculateBLS ?b)) (Fin 0)"
    by (simp add: bls_short_span_value ngt_def)
  with calculateBLS_result_invariant[of ?b] s have "ngt (period (calculateBLS ?b)) (Fin 0)"
    by blast
  with a s p show ?thesis
    by simp
qed

section \<open>Detrending a short series\<close>

text \<open>
  C3: a series of fewer than 20 samples has a window size of 0 or 1, and the claim has
  \<open>detrendLightCurve\<close> return it nearly unchanged, the median of an empty window counting
  as 1.0. The code has no such case: every window is then the empty slice, whose median is
  \<open>(undefined + undefined) / 2\<close>, and every output element is \<open>NaN\<close> (lemma
  \<open>detrend_short_series\<close>). Here on three samples of flux 1.
\<close>

theorem detrendLightCurve_short_nan:
  "flux (detrendLightCurve \<lparr>time = [0, 1, 2], flux = [1, 1, 1]\<rparr>) = [NaN, NaN, NaN]"
  by (simp add: detrendLightCurve_def calculateMedian_def slice_def js_sort_def elem_def Let_def upt_rec)

section \<open>Attribution\<close>

text \<open>
  C8 as stated fails: \<open>Math.random()\<close> is called inside the loop, once for each feature, so
  two features with the same difference to their baseline (here 1 - 0) get different
  attributions when the draws differ (here 0.2 and 0.8): no single factor serves both.
\<close>

theorem calculateSHAPValues_single_factor_counterexample:
  "calculateSHAPValues [(''mean'', Fin 1), (''std'', Fin 1)] Map.empty
     (\<lambda>n. if n = 0 then 1/5 else 4/5) ''mean'' = Some (Fin (1/10)) \<and>
   calculateSHAPValues [(''mean'', Fin 1), (''std'', Fin 1)] Map.empty
     (\<lambda>n. if n = 0 then 1/5 else 4/5) ''std'' = Some (Fin (2/5))"
  by (simp add: calculateSHAPValues_def lookup_def object_prototype_keys_def assign_def nsub_def
        Let_def)

text \<open>
  C8, amended: for every features mapping and baseline mapping, the attribution returned
  by \<open>calculateSHAPValues\<close> for each named feature (but \<open>__proto__\<close>, under which nothing
  is stored) equals (observed - baseline) times a random factor of its own in [0, 0.5):
  half the value of the call of \<open>Math.random()\<close> made for that feature, the \<open>i\<close>-th call for
  the \<open>i\<close>-th entry. The baseline is \<open>baselineValues[key] || 0\<close> as JavaScript reads it.
\<close>

theorem calculateSHAPValues_per_feature:
  assumes "distinct (map fst features)" and "\<forall>n. 0 \<le> rnd n \<and> rnd n < 1"
    and "i < length features" and "features ! i = (key, val)" and "key \<noteq> ''__proto__''"
  shows "calculateSHAPValues features baselineValues rnd key =
           Some (nmul (nsub val (baseline_of (lookup baselineValues key))) (Fin (rnd i / 2))) \<and>
         0 \<le> rnd i / 2 \<and> rnd i / 2 < 1/2"
  using shap_loop_entry[OF assms(1,3), of baselineValues rnd 0 Map.empty] assms(2,4,5)
  by (simp add: calculateSHAPValues_def)

text \<open>
  With draws 0.2 and 0.8: the feature \<open>mean\<close>, observed 3 against the baseline 1, gets
  2 times 0.1; the feature \<open>toString\<close> has no baseline of its own and meets the inherited
  function, so its attribution is \<open>NaN\<close>.
\<close>

theorem calculateSHAPValues_per_feature_witness:
  "calculateSHAPValues [(''mean'', Fin 3), (''toString'', Fin 1)] [''mean'' \<mapsto> Fin 1]
     (\<lambda>n. if n = 0 then 1/5 else 4/5) ''mean'' = Some (Fin (1/5)) \<and>
   calculateSHAPValues [(''mean'', Fin 3), (''toString'', Fin 1)] [''mean'' \<mapsto> Fin 1]
     (\<lambda>n. if n = 0 then 1/5 else 4/5) ''toString'' = Some NaN"
proof -
  let ?fs = "[(''mean'', Fin 3), (''toString'', Fin 1)]"
  let ?rnd = "\<lambda>n::nat. if n = 0 then 1/5 else 4/5 :: real"
  have d: "distinct (map fst ?fs)" by simp
  have r: "\<forall>n. 0 \<le> ?rnd n \<and> ?rnd n < 1" by simp
  have "calculateSHAPValues ?fs [''mean'' \<mapsto> Fin 1] ?rnd ''mean'' = Some (Fin (1/5))"
    using calculateSHAPValues_per_feature[OF d r, of 0 "''mean''" "Fin 3" "[''mean'' \<mapsto> Fin 1]"]
    by (simp add: lookup_def nor_def nsub_def)
  moreover have "calculateSHAPValues ?fs [''mean'' \<mapsto> Fin 1] ?rnd ''toString'' = Some NaN"
    using calculateSHAPValues_per_feature[OF d r, of 1 "''toString''" "Fin 1" "[''mean'' \<mapsto> Fin 1]"]
    by (simp add: lookup_def object_prototype_keys_def nsub_def)
  ultimately show ?thesis by simp
qed

section \<open>The detector without a model\<close>

text \<open>
  C9: \<open>evaluateModel\<close> on a detector whose model was never built or loaded raises the error
  "Model not initialized" and returns no metrics; the detector is left as it was, still
  without a model.
\<close>

theorem evaluateModel_uninitialized:
  "model this = None \<Longrightarrow>
   evaluateModel tf this testData testLabels = (Inl (Error ''Model not initialized''), this)"
  by (simp add: evaluateModel_def)

theorem evaluateModel_uninitialized_witness:
  "model (new_ExoplanetDetector :: nat ExoplanetDetector) = None \<and>
   evaluateModel
     \<lparr>sequential = (\<lambda>n. n), model_predict = (\<lambda>m xs. Fin (3/4)), model_grad = (\<lambda>m xs. xs),
      model_fit = (\<lambda>m xs ys e b. m),
      model_save = (\<lambda>m p st. (Inr (), st(p \<mapsto> m))),
      loadLayersModel = (\<lambda>p st. case st p of None \<Rightarrow> Inl (Error ''not found'') | Some m \<Rightarrow> Inr m)\<rparr>
     new_ExoplanetDetector [\<lparr>time = [0, 1], flux = [1, 2]\<rparr>] [1] =
   (Inl (Error ''Model not initialized''), new_ExoplanetDetector)"
proof -
  have n: "model (new_ExoplanetDetector :: nat ExoplanetDetector) = None"
    by (simp add: new_ExoplanetDetector_def)
  from evaluateModel_uninitialized[OF n] n show ?thesis
    by simp
qed

text \<open>
  C10: \<open>saveModel\<close> on a detector whose model was never built or loaded returns
  successfully and leaves the store untouched, for every path (and whatever the runtime's
  save would have done).
\<close>

theorem saveModel_unbuilt_noop:
  "model this = None \<Longrightarrow> saveModel tf this path store = (Inr (), store)"
  by (simp add: saveModel_def)

theorem saveModel_unbuilt_noop_witness:
  "model (new_ExoplanetDetector :: nat ExoplanetDetector) = None \<and>
   saveModel
     \<lparr>sequential = (\<lambda>n. n), model_predict = (\<lambda>m xs. Fin 0), model_grad = (\<lambda>m xs. xs),
      model_fit = (\<lambda>m xs ys e b. m),
      model_save = (\<lambda>m p st. (Inl (Error ''quota exceeded''), st(p \<mapsto> m))),
      loadLayersModel = (\<lambda>p st. case st p of None \<Rightarrow> Inl (Error ''not found'') | Some m \<Rightarrow> Inr m)\<rparr>
     new_ExoplanetDetector ''localstorage://exoplanet-model'' Map.empty = (Inr (), Map.empty)"
proof -
  have n: "model (new_ExoplanetDetector :: nat ExoplanetDetector) = None"
    by (simp add: new_ExoplanetDetector_def)
  from saveModel_unbuilt_noop[OF n] n show ?thesis
    by simp
qed

section \<open>Statistical features\<close>

text \<open>
  C6 as stated fails: the flux series \<open>extractFeatures\<close> is given is the detrended one, and
  where that holds \<open>NaN\<close> (here the three samples of a short series) the mean and with it
  the variance are \<open>NaN\<close>, which is not \<open>\<ge> 0\<close>.
\<close>

theorem extractFeatures_nan_counterexample:
  "f_variance (extractFeatures (detrendLightCurve \<lparr>time = [0, 1, 2], flux = [1, 1, 1]\<rparr>)) = NaN \<and>
   \<not> nge (f_variance (extractFeatures (detrendLightCurve \<lparr>time = [0, 1, 2], flux = [1, 1, 1]\<rparr>)))
        (Fin 0)"
  by (simp add: detrend_short_series extractFeatures_def nsum_def nsub_def nge_def Let_def
        numeral_3_eq_3 numeral_2_eq_2)

text \<open>
  C6, amended: for every non-empty flux series of finite values, the feature vector of
  \<open>extractFeatures\<close> has \<open>range = max - min\<close> exactly, with \<open>min\<close> and \<open>max\<close> the least and the
  greatest flux, \<open>std = sqrt(variance)\<close> and \<open>variance \<ge> 0\<close>, where the variance is the
  population variance: the squared deviations from the mean, summed and divided by \<open>N\<close>.
\<close>

theorem extractFeatures_invariant:
  assumes "xs \<noteq> []" and "flux lc = map Fin xs"
  shows "f_min (extractFeatures lc) = Fin (Min (set xs)) \<and>
         f_max (extractFeatures lc) = Fin (Max (set xs)) \<and>
         f_range (extractFeatures lc) = Fin (Max (set xs) - Min (set xs)) \<and>
         f_mean (extractFeatures lc) = Fin (mean xs) \<and>
         f_variance (extractFeatures lc) = Fin (pop_variance xs) \<and>
         0 \<le> pop_variance xs \<and>
         f_std (extractFeatures lc) = Fin (sqrt (pop_variance xs))"
proof -
  let ?n = "real (length xs)"
  have n: "?n \<noteq> 0"
    using assms(1) by simp
  have mean: "ndiv (nsum (map Fin xs)) (Fin ?n) = Fin (mean xs)"
    using n by (simp add: nsum_Fin mean_def)
  have var: "ndiv (foldl (\<lambda>sum val. nadd sum (npow (nsub val (Fin (mean xs))) 2)) (Fin 0) (map Fin xs))
               (Fin ?n) = Fin (pop_variance xs)"
    using n by (simp add: foldl_squares pop_variance_def)
  have "0 \<le> (\<Sum>x\<leftarrow>xs. (x - mean xs)\<^sup>2)"
    by (rule sum_list_nonneg) auto
  then have nonneg: "0 \<le> pop_variance xs"
    by (simp add: pop_variance_def)
  have "set (sort xs) = set xs"
    by simp
  then have srt: "sort xs \<noteq> []" "sorted (sort xs)"
    using assms(1) by (metis set_empty, simp)
  have mn: "elem (sort xs) 0 = Fin (Min (set xs))"
    using elem_first[OF srt(1)] sorted_hd_Min[OF srt(2,1)] by simp
  have mx: "elem (sort xs) (int (length xs) - 1) = Fin (Max (set xs))"
    using elem_last[OF srt(1)] sorted_last_Max[OF srt(2,1)] by simp
  show ?thesis
    using nonneg
    by (simp add: extractFeatures_def Let_def assms(2) mean var js_sort_Fin elem_num_Fin mn mx
          nsub_Fin)
qed

text \<open>
  On the flux 5, 1: mean 3, squared deviations 4 and 4, so variance 8/2 = 4 and
  std 2; least 1, greatest 5, range 4.
\<close>

theorem extractFeatures_invariant_witness:
  "f_mean (extractFeatures (\<lparr>time = [0, 1], flux = [Fin 5, Fin 1]\<rparr> :: (real, number) LightCurveData)) = Fin 3 \<and>
   f_variance (extractFeatures (\<lparr>time = [0, 1], flux = [Fin 5, Fin 1]\<rparr> :: (real, number) LightCurveData)) = Fin 4 \<and>
   f_std (extractFeatures (\<lparr>time = [0, 1], flux = [Fin 5, Fin 1]\<rparr> :: (real, number) LightCurveData)) = Fin 2 \<and>
   f_min (extractFeatures (\<lparr>time = [0, 1], flux = [Fin 5, Fin 1]\<rparr> :: (real, number) LightCurveData)) = Fin 1 \<and>
   f_max (extractFeatures (\<lparr>time = [0, 1], flux = [Fin 5, Fin 1]\<rparr> :: (real, number) LightCurveData)) = Fin 5 \<and>
   f_range (extractFeatures (\<lparr>time = [0, 1], flux = [Fin 5, Fin 1]\<rparr> :: (real, number) LightCurveData)) = Fin 4"
proof -
  let ?lc = "\<lparr>time = [0, 1], flux = [Fin 5, Fin 1]\<rparr> :: (real, number) LightCurveData"
  have ne: "[5, 1 :: real] \<noteq> []"
    by simp
  have fl: "flux ?lc = map Fin [5, 1]"
    by simp
  have v: "pop_variance [5, 1] = 4" and m: "mean [5, 1] = 3"
    by (simp_all add: pop_variance_def mean_def)
  from extractFeatures_invariant[OF ne fl] show ?thesis
    by (simp add: v m)
qed

section \<open>Phases of a folded light curve\<close>

text \<open>
  C5: for a period above 0 the claim has every phase put out by \<open>foldLightCurve\<close> in
  [0,1), in non-decreasing order. The order holds, and so does the range for the samples
  at or after the epoch (lemma \<open>foldLightCurve_phases\<close>). A sample before the epoch, though,
  gets a negative phase, since the remainder \<open>%\<close> takes the sign of \<open>t - epoch\<close>: with
  period 2 and epoch 1 the sample at time 0 is folded to phase -0.5, a full cycle away from
  the sample at time 2 (phase 0.5) that shares its place in the cycle.
\<close>

theorem foldLightCurve_negative_phase:
  "foldLightCurve \<lparr>time = [0, 1, 2, 3], flux = [1, 2, 3, 4]\<rparr> 2 1 =
     \<lparr>time = [Fin (- 1/2), Fin 0, Fin 0, Fin (1/2)], flux = [Fin 1, Fin 2, Fin 4, Fin 3]\<rparr>"
  by (simp add: foldLightCurve_def js_sort_def nsub_def elem_def fmod_def trunc_def ceiling_def
        Let_def upt_rec)

end
